theory Spec2Isabelle
  imports Complex_Main
begin

section \<open>JavaScript values\<close>

text \<open>
  The client handles values whose shape is only known at run time: the configuration and
  the payment data before schema validation, and the parsed JSON of a response. They are
  modelled by one datatype of JavaScript values. Numbers are the finite ones, as
  rationals; strings are character lists; an object is the list of its own properties,
  each key once.
\<close>

datatype jsval =
    JUndefined
  | JNull
  | JBool bool
  | JNum rat
  | JStr string
  | JArr "jsval list"
  | JObj "(string \<times> jsval) list"

text \<open>Truthiness, as \<open>!x\<close>, \<open>x || y\<close> and \<open>x ? a : b\<close> read it.\<close>

fun truthy :: "jsval \<Rightarrow> bool" where
  "truthy JUndefined = False"
| "truthy JNull = False"
| "truthy (JBool b) = b"
| "truthy (JNum n) = (n \<noteq> 0)"
| "truthy (JStr s) = (s \<noteq> [])"
| "truthy (JArr xs) = True"
| "truthy (JObj kvs) = True"

text \<open>\<open>a || b\<close>: the left operand when it is truthy, the right one otherwise.\<close>

definition js_or :: "jsval \<Rightarrow> jsval \<Rightarrow> jsval" where
  "js_or a b = (if truthy a then a else b)"

text \<open>
  What can be thrown (or a promise rejected with): a ZodError with its issues, an Error
  object with its name and message, or any other value.
\<close>

datatype path_elem = Key string | Idx nat

text \<open>
  A validation issue: where it is, and the message the schema gives for it
  (\<open>None\<close> when the message is zod's own, as for a value of the wrong type).
\<close>

datatype zod_issue = ZodIssue "path_elem list" "string option"

datatype thrown =
    ZodError "zod_issue list"
  | Error string string
  | Thrown jsval

text \<open>
  Property access \<open>v.k\<close>, for the property names the client reads (none of them is
  inherited from a prototype or built into strings, numbers, booleans or arrays): it
  throws a TypeError on \<open>undefined\<close> and \<open>null\<close>, finds an own property of an
  object, and is \<open>undefined\<close> otherwise.
\<close>

definition own_prop :: "(string \<times> jsval) list \<Rightarrow> string \<Rightarrow> jsval" where
  "own_prop kvs k = (case map_of kvs k of None \<Rightarrow> JUndefined | Some v \<Rightarrow> v)"

fun get_prop :: "jsval \<Rightarrow> string \<Rightarrow> thrown + jsval" where
  "get_prop JUndefined k =
     Inl (Error ''TypeError''
            (''Cannot read properties of undefined (reading '' @ [CHR 0x27] @ k @ [CHR 0x27]
             @ '')''))"
| "get_prop JNull k =
     Inl (Error ''TypeError''
            (''Cannot read properties of null (reading '' @ [CHR 0x27] @ k @ [CHR 0x27]
             @ '')''))"
| "get_prop (JObj kvs) k = Inr (own_prop kvs k)"
| "get_prop v k = Inr JUndefined"

text \<open>Optional chaining \<open>v?.k\<close>: \<open>undefined\<close> on \<open>undefined\<close> and \<open>null\<close>, never throws.\<close>

fun opt_prop :: "jsval \<Rightarrow> string \<Rightarrow> jsval" where
  "opt_prop (JObj kvs) k = own_prop kvs k"
| "opt_prop v k = JUndefined"

section \<open>The signature module (utils/signature.ts)\<close>

text \<open>
  The module calls three functions of the crypto-js package, which is not part of the
  repository: they are parameters of the model, over any type \<open>'h\<close> of hash values
  (crypto-js's WordArray). \<open>HmacSHA256 cj message key\<close> has crypto-js's argument order.
\<close>

record 'h CryptoJS =
  SHA256 :: "string \<Rightarrow> 'h"
  HmacSHA256 :: "string \<Rightarrow> string \<Rightarrow> 'h"
  Base64_stringify :: "'h \<Rightarrow> string"

definition LF :: string where
  "LF = [CHR 0x0A]"

definition generateDigest :: "'h CryptoJS \<Rightarrow> string \<Rightarrow> string" where
  "generateDigest cj jsonBody =
     (let hash = SHA256 cj jsonBody
      in Base64_stringify cj hash)"

text \<open>
  The component string is built by successive \<open>+=\<close>; \<open>if (digest)\<close> is true of a
  non-empty string.
\<close>

definition componentSignature :: "string \<Rightarrow> string \<Rightarrow> string \<Rightarrow> string \<Rightarrow> string \<Rightarrow> string" where
  "componentSignature clientId requestId requestTarget digest requestTimestamp =
     (let c0 = ''Client-Id:'' @ clientId;
          c1 = c0 @ LF;
          c2 = c1 @ (''Request-Id:'' @ requestId);
          c3 = c2 @ LF;
          c4 = c3 @ (''Request-Timestamp:'' @ requestTimestamp);
          c5 = c4 @ LF;
          c6 = c5 @ (''Request-Target:'' @ requestTarget)
      in if digest \<noteq> [] then (c6 @ LF) @ (''Digest:'' @ digest) else c6)"

definition generateSignature ::
  "'h CryptoJS \<Rightarrow> string \<Rightarrow> string \<Rightarrow> string \<Rightarrow> string \<Rightarrow> string \<Rightarrow> string \<Rightarrow> string" where
  "generateSignature cj clientId requestId requestTarget digest secretKey requestTimestamp =
     (let hmac256Value =
            HmacSHA256 cj
              (componentSignature clientId requestId requestTarget digest requestTimestamp)
              secretKey;
          signature = Base64_stringify cj hmac256Value
      in ''HMACSHA256='' @ signature)"

text \<open>
  The canonical string as the specification words it: the four lines \<open>Client-Id\<close>,
  \<open>Request-Id\<close>, \<open>Request-Timestamp\<close>, \<open>Request-Target\<close> in this order, then the
  \<open>Digest\<close> line only when the digest is non-empty, joined by a line feed, with none at
  the end.
\<close>

fun join_lines :: "string list \<Rightarrow> string" where
  "join_lines [] = []"
| "join_lines [l] = l"
| "join_lines (l # m # ls) = l @ LF @ join_lines (m # ls)"

definition canonical_string :: "string \<Rightarrow> string \<Rightarrow> string \<Rightarrow> string \<Rightarrow> string \<Rightarrow> string" where
  "canonical_string clientId requestId timestamp targetPath digest =
     join_lines
       ([''Client-Id:'' @ clientId,
         ''Request-Id:'' @ requestId,
         ''Request-Timestamp:'' @ timestamp,
         ''Request-Target:'' @ targetPath]
        @ (if digest \<noteq> [] then [''Digest:'' @ digest] else []))"

section \<open>The schemas (schema.ts)\<close>

text \<open>
  The schemas are zod schemas; zod is not part of the repository. The validators below
  are the ones the two schemas use, with zod's documented behaviour: a validator accepts
  a value of its type that passes its check and returns it unchanged, and otherwise
  reports issues; \<open>optional\<close> accepts \<open>undefined\<close>; an object schema rejects what is
  not an object, reads each declared key (a missing key reads \<open>undefined\<close>), collects
  the issues of all keys and drops undeclared keys.
\<close>

type_synonym 'a parsed = "zod_issue list + 'a"

definition issues_of :: "'a parsed \<Rightarrow> zod_issue list" where
  "issues_of r = (case r of Inl is \<Rightarrow> is | Inr _ \<Rightarrow> [])"

definition z_string_min :: "path_elem list \<Rightarrow> nat \<Rightarrow> string \<Rightarrow> jsval \<Rightarrow> string parsed" where
  "z_string_min p n msg v =
     (case v of
        JStr s \<Rightarrow> if length s < n then Inl [ZodIssue p (Some msg)] else Inr s
      | _ \<Rightarrow> Inl [ZodIssue p None])"

definition z_boolean :: "path_elem list \<Rightarrow> jsval \<Rightarrow> bool parsed" where
  "z_boolean p v = (case v of JBool b \<Rightarrow> Inr b | _ \<Rightarrow> Inl [ZodIssue p None])"

definition z_string :: "path_elem list \<Rightarrow> jsval \<Rightarrow> string parsed" where
  "z_string p v = (case v of JStr s \<Rightarrow> Inr s | _ \<Rightarrow> Inl [ZodIssue p None])"

definition z_string_check :: "path_elem list \<Rightarrow> (string \<Rightarrow> bool) \<Rightarrow> string \<Rightarrow> jsval \<Rightarrow> string parsed" where
  "z_string_check p valid msg v =
     (case v of
        JStr s \<Rightarrow> if valid s then Inr s else Inl [ZodIssue p (Some msg)]
      | _ \<Rightarrow> Inl [ZodIssue p None])"

definition z_number_positive :: "path_elem list \<Rightarrow> string \<Rightarrow> jsval \<Rightarrow> rat parsed" where
  "z_number_positive p msg v =
     (case v of
        JNum n \<Rightarrow> if n > 0 then Inr n else Inl [ZodIssue p (Some msg)]
      | _ \<Rightarrow> Inl [ZodIssue p None])"

definition z_optional :: "(jsval \<Rightarrow> 'a parsed) \<Rightarrow> jsval \<Rightarrow> 'a option parsed" where
  "z_optional schema v =
     (if v = JUndefined then Inr None
      else case schema v of Inl is \<Rightarrow> Inl is | Inr x \<Rightarrow> Inr (Some x))"

fun z_elements :: "path_elem list \<Rightarrow> nat \<Rightarrow> jsval list \<Rightarrow> string list parsed" where
  "z_elements p i [] = Inr []"
| "z_elements p i (v # vs) =
     (case (z_string (p @ [Idx i]) v, z_elements p (Suc i) vs) of
        (Inr s, Inr ss) \<Rightarrow> Inr (s # ss)
      | (a, b) \<Rightarrow> Inl (issues_of a @ issues_of b))"

definition z_array_string :: "path_elem list \<Rightarrow> jsval \<Rightarrow> string list parsed" where
  "z_array_string p v = (case v of JArr vs \<Rightarrow> z_elements p 0 vs | _ \<Rightarrow> Inl [ZodIssue p None])"

text \<open>
  One key of an object schema: the value joins the ones parsed so far, and the issues of
  all keys are collected in order.
\<close>

definition z_field :: "('a \<Rightarrow> 'b) parsed \<Rightarrow> 'a parsed \<Rightarrow> 'b parsed" where
  "z_field f x =
     (case (f, x) of
        (Inr g, Inr v) \<Rightarrow> Inr (g v)
      | _ \<Rightarrow> Inl (issues_of f @ issues_of x))"

record DokuConfig =
  cfg_clientId :: string
  cfg_secretKey :: string
  cfg_isProduction :: bool

definition ConfigSchema_parse :: "jsval \<Rightarrow> thrown + DokuConfig" where
  "ConfigSchema_parse input =
     (case input of
        JObj kvs \<Rightarrow>
          (case
             z_field (z_field (z_field
               (Inr (\<lambda>a b c. \<lparr>cfg_clientId = a, cfg_secretKey = b, cfg_isProduction = c\<rparr>))
               (z_string_min [Key ''clientId''] 1 ''Client ID is required''
                  (own_prop kvs ''clientId'')))
               (z_string_min [Key ''secretKey''] 1 ''Secret Key is required''
                  (own_prop kvs ''secretKey'')))
               (z_boolean [Key ''isProduction''] (own_prop kvs ''isProduction''))
           of Inl is \<Rightarrow> Inl (ZodError is) | Inr validatedConfig \<Rightarrow> Inr validatedConfig)
      | _ \<Rightarrow> Inl (ZodError [ZodIssue [] None]))"

record PaymentRequest =
  pr_orderId :: string
  pr_amount :: rat
  pr_customerName :: string
  pr_customerEmail :: string
  pr_customerPhone :: string
  pr_description :: "string option"
  pr_returnUrl :: string
  pr_expiredTime :: "rat option"
  pr_paymentMethodTypes :: "string list option"

text \<open>
  The email and URL checks of zod are parameters: \<open>is_email\<close> and \<open>is_url\<close>.
\<close>

definition PaymentRequestSchema_parse ::
  "(string \<Rightarrow> bool) \<Rightarrow> (string \<Rightarrow> bool) \<Rightarrow> jsval \<Rightarrow> thrown + PaymentRequest" where
  "PaymentRequestSchema_parse is_email is_url input =
     (case input of
        JObj kvs \<Rightarrow>
          (case
             z_field (z_field (z_field (z_field (z_field (z_field (z_field (z_field (z_field
               (Inr (\<lambda>a b c d e f g h i.
                  \<lparr>pr_orderId = a, pr_amount = b, pr_customerName = c, pr_customerEmail = d,
                   pr_customerPhone = e, pr_description = f, pr_returnUrl = g,
                   pr_expiredTime = h, pr_paymentMethodTypes = i\<rparr>))
               (z_string_min [Key ''orderId''] 1 ''Order ID is required''
                  (own_prop kvs ''orderId'')))
               (z_number_positive [Key ''amount''] ''Amount must be positive''
                  (own_prop kvs ''amount'')))
               (z_string_min [Key ''customerName''] 1 ''Customer name is required''
                  (own_prop kvs ''customerName'')))
               (z_string_check [Key ''customerEmail''] is_email ''Invalid email address''
                  (own_prop kvs ''customerEmail'')))
               (z_string_min [Key ''customerPhone''] 1 ''Phone number is required''
                  (own_prop kvs ''customerPhone'')))
               (z_optional (z_string [Key ''description'']) (own_prop kvs ''description'')))
               (z_string_check [Key ''returnUrl''] is_url ''Invalid return URL''
                  (own_prop kvs ''returnUrl'')))
               (z_optional
                  (z_number_positive [Key ''expiredTime''] ''Expired time must be positive'')
                  (own_prop kvs ''expiredTime'')))
               (z_optional (z_array_string [Key ''paymentMethodTypes''])
                  (own_prop kvs ''paymentMethodTypes''))
           of Inl is \<Rightarrow> Inl (ZodError is) | Inr validatedData \<Rightarrow> Inr validatedData)
      | _ \<Rightarrow> Inl (ZodError [ZodIssue [] None]))"

section \<open>The client (DokuClient.ts)\<close>

record DokuClient =
  config :: DokuConfig
  baseUrl :: string

text \<open>
  The constructor: \<open>ConfigSchema.parse\<close> throws on an invalid configuration; the base
  URL is chosen by the \<open>isProduction\<close> property of the configuration as passed in.
\<close>

definition DokuClient_new :: "jsval \<Rightarrow> thrown + DokuClient" where
  "DokuClient_new cfg =
     (case ConfigSchema_parse cfg of
        Inl e \<Rightarrow> Inl e
      | Inr validatedConfig \<Rightarrow>
          (case get_prop cfg ''isProduction'' of
             Inl e \<Rightarrow> Inl e
           | Inr isProd \<Rightarrow>
               Inr \<lparr>config = validatedConfig,
                    baseUrl = (if truthy isProd then ''https://api.doku.com''
                               else ''https://api-sandbox.doku.com'')\<rparr>))"

text \<open>The four headers of an inbound notification, as \<open>validateSignature\<close> takes them.\<close>

record SignatureHeaders =
  hdr_signature :: string
  hdr_timestamp :: string
  hdr_requestId :: string
  hdr_clientId :: string

definition validateSignature ::
  "'h CryptoJS \<Rightarrow> DokuClient \<Rightarrow> string \<Rightarrow> SignatureHeaders \<Rightarrow> string \<Rightarrow> bool" where
  "validateSignature cj this body headers requestTarget =
     (let receivedSignature = hdr_signature headers;
          timestamp = hdr_timestamp headers;
          requestId = hdr_requestId headers;
          clientId = hdr_clientId headers
      in if receivedSignature = [] \<or> timestamp = [] \<or> requestId = [] \<or> clientId = []
         then False
         else if clientId \<noteq> cfg_clientId (config this) then False
         else
           (let digest = generateDigest cj body;
                calculatedSignature =
                  generateSignature cj clientId requestId requestTarget digest
                    (cfg_secretKey (config this)) timestamp
            in calculatedSignature = receivedSignature))"

text \<open>
  \<open>validateSignature\<close> above takes its headers as TypeScript declares them. At run
  time the method is handed any value: the repository's tests pass headers with a field
  missing. \<open>validateSignature_js\<close> is the same method on any headers value. It
  destructures the headers first, which throws a TypeError on \<open>undefined\<close> and
  \<open>null\<close> and reads a missing field as \<open>undefined\<close>; \<open>!x\<close> is falsiness; \<open>!==\<close> and
  \<open>===\<close> hold of two equal strings only; and \<open>+\<close> converts an operand that is not a
  string by the platform's string conversion \<open>to_string\<close>, a parameter, which does not
  throw on these values.

  To say when the method hashes, the calls of the hash functions are logged: each call
  of \<open>generateDigest\<close> is one call of SHA256 on the body, each call of
  \<open>generateSignature\<close> one call of HmacSHA256 on the component string and the key.
\<close>

datatype hash_call = Call_SHA256 string | Call_HmacSHA256 string string

definition generateDigest_logged ::
  "'h CryptoJS \<Rightarrow> string \<Rightarrow> hash_call list \<Rightarrow> string \<times> hash_call list" where
  "generateDigest_logged cj jsonBody calls =
     (generateDigest cj jsonBody, calls @ [Call_SHA256 jsonBody])"

definition generateSignature_logged ::
  "'h CryptoJS \<Rightarrow> string \<Rightarrow> string \<Rightarrow> string \<Rightarrow> string \<Rightarrow> string \<Rightarrow> string \<Rightarrow>
   hash_call list \<Rightarrow> string \<times> hash_call list" where
  "generateSignature_logged cj clientId requestId requestTarget digest secretKey requestTimestamp
     calls =
     (generateSignature cj clientId requestId requestTarget digest secretKey requestTimestamp,
      calls @ [Call_HmacSHA256
                 (componentSignature clientId requestId requestTarget digest requestTimestamp)
                 secretKey])"

definition concat_operand :: "(jsval \<Rightarrow> string) \<Rightarrow> jsval \<Rightarrow> string" where
  "concat_operand to_string v = (case v of JStr s \<Rightarrow> s | _ \<Rightarrow> to_string v)"

definition validateSignature_js ::
  "'h CryptoJS \<Rightarrow> (jsval \<Rightarrow> string) \<Rightarrow> DokuClient \<Rightarrow> string \<Rightarrow> jsval \<Rightarrow> string \<Rightarrow>
   hash_call list \<Rightarrow> (thrown + bool) \<times> hash_call list" where
  "validateSignature_js cj to_string this body headers requestTarget calls =
     (if headers = JUndefined \<or> headers = JNull
      then (Inl (Error ''TypeError''
                   (''Cannot destructure property '' @ [CHR 0x27] @ ''signature'' @ [CHR 0x27]
                    @ '' of '' @ [CHR 0x27] @ ''headers'' @ [CHR 0x27] @ '' as it is ''
                    @ (if headers = JNull then ''null'' else ''undefined'') @ ''.'')),
            calls)
      else
        (let receivedSignature = opt_prop headers ''signature'';
             timestamp = opt_prop headers ''timestamp'';
             requestId = opt_prop headers ''requestId'';
             clientId = opt_prop headers ''clientId''
         in if \<not> truthy receivedSignature \<or> \<not> truthy timestamp \<or> \<not> truthy requestId
               \<or> \<not> truthy clientId
            then (Inr False, calls)
            else if clientId \<noteq> JStr (cfg_clientId (config this)) then (Inr False, calls)
            else
              (case generateDigest_logged cj body calls of (digest, calls1) \<Rightarrow>
               case generateSignature_logged cj (cfg_clientId (config this))
                      (concat_operand to_string requestId) requestTarget digest
                      (cfg_secretKey (config this)) (concat_operand to_string timestamp)
                      calls1 of
                 (calculatedSignature, calls2) \<Rightarrow>
                   (Inr (JStr calculatedSignature = receivedSignature), calls2))))"

text \<open>Well-typed headers as the value the method receives.\<close>

definition headers_of :: "SignatureHeaders \<Rightarrow> jsval" where
  "headers_of h =
     JObj [(''signature'', JStr (hdr_signature h)),
           (''timestamp'', JStr (hdr_timestamp h)),
           (''requestId'', JStr (hdr_requestId h)),
           (''clientId'', JStr (hdr_clientId h))]"

text \<open>
  The transport. \<open>fetch\<close> is the platform's: it is a parameter, a function of the
  URL, the request and the state of the world that resolves with a response or rejects
  with a thrown value. A response carries its status and what awaiting \<open>json()\<close>
  gives; \<open>ok\<close> is the Fetch standard's getter, true of a status from 200 to 299.
\<close>

record RequestInit =
  init_method :: string
  init_headers :: "(string \<times> string) list"
  init_body :: string

record Response =
  status :: int
  json :: "thrown + jsval"

definition ok :: "Response \<Rightarrow> bool" where
  "ok response = (200 \<le> status response \<and> status response \<le> 299)"

text \<open>
  \<open>fetchWithRetry\<close>. The timer is a parameter too: \<open>delay ms\<close> is what awaiting a
  timeout of \<open>ms\<close> milliseconds does to the world. The recursive call is returned
  without \<open>await\<close>, so its rejection is the caller's and is not caught again here.
\<close>

function fetchWithRetry ::
  "(string \<Rightarrow> RequestInit \<Rightarrow> 'w \<Rightarrow> (thrown + Response) \<times> 'w) \<Rightarrow> (nat \<Rightarrow> 'w \<Rightarrow> 'w) \<Rightarrow>
   string \<Rightarrow> RequestInit \<Rightarrow> int \<Rightarrow> 'w \<Rightarrow> (thrown + Response) \<times> 'w" where
  "fetchWithRetry fetch delay url options retries w =
     (case fetch url options w of
        (Inr response, w1) \<Rightarrow>
          if ok response then (Inr response, w1)
          else if retries > 0 \<and> status response \<ge> 500
          then fetchWithRetry fetch delay url options (retries - 1) (delay 1000 w1)
          else (Inr response, w1)
      | (Inl error, w1) \<Rightarrow>
          if retries > 0
          then fetchWithRetry fetch delay url options (retries - 1) (delay 1000 w1)
          else (Inl error, w1))"
  by pat_completeness auto
termination
  by (relation "measure (\<lambda>(fetch, delay, url, options, retries, w). nat retries)") auto

declare fetchWithRetry.simps [simp del]

text \<open>
  A transport with a call counter: it behaves as \<open>fetch\<close> and counts the calls made.
  The timer leaves the counter alone.
\<close>

definition counting ::
  "(string \<Rightarrow> RequestInit \<Rightarrow> 'w \<Rightarrow> (thrown + Response) \<times> 'w) \<Rightarrow>
   string \<Rightarrow> RequestInit \<Rightarrow> nat \<times> 'w \<Rightarrow> (thrown + Response) \<times> nat \<times> 'w" where
  "counting fetch url options cw =
     (case cw of (calls, w) \<Rightarrow>
        (case fetch url options w of (r, w1) \<Rightarrow> (r, (Suc calls, w1))))"

definition counting_delay :: "(nat \<Rightarrow> 'w \<Rightarrow> 'w) \<Rightarrow> nat \<Rightarrow> nat \<times> 'w \<Rightarrow> nat \<times> 'w" where
  "counting_delay delay ms cw = (case cw of (calls, w) \<Rightarrow> (calls, delay ms w))"

text \<open>
  The world in which attempt \<open>k\<close> of a run is made (attempts counted from 0), when every
  attempt before it led to a retry: the world the previous call left, after the timer.
\<close>

fun world_before ::
  "(string \<Rightarrow> RequestInit \<Rightarrow> 'w \<Rightarrow> (thrown + Response) \<times> 'w) \<Rightarrow> (nat \<Rightarrow> 'w \<Rightarrow> 'w) \<Rightarrow>
   string \<Rightarrow> RequestInit \<Rightarrow> nat \<Rightarrow> 'w \<Rightarrow> 'w" where
  "world_before fetch delay url options 0 w = w"
| "world_before fetch delay url options (Suc k) w =
     world_before fetch delay url options k (delay 1000 (snd (fetch url options w)))"

text \<open>
  The number of transport calls one run of \<open>fetchWithRetry\<close> makes: the counter of the
  counting transport after the run, started at zero.
\<close>

definition attempts ::
  "(string \<Rightarrow> RequestInit \<Rightarrow> 'w \<Rightarrow> (thrown + Response) \<times> 'w) \<Rightarrow> (nat \<Rightarrow> 'w \<Rightarrow> 'w) \<Rightarrow>
   string \<Rightarrow> RequestInit \<Rightarrow> int \<Rightarrow> 'w \<Rightarrow> nat" where
  "attempts fetch delay url options retries w =
     fst (snd (fetchWithRetry (counting fetch) (counting_delay delay) url options retries (0, w)))"

text \<open>Sequencing of steps that may throw.\<close>

definition bindE :: "'e + 'a \<Rightarrow> ('a \<Rightarrow> 'e + 'b) \<Rightarrow> 'e + 'b" where
  "bindE x f = (case x of Inl e \<Rightarrow> Inl e | Inr a \<Rightarrow> f a)"

text \<open>
  What the client takes from its platform and its packages, none of it code of the
  repository: the crypto-js functions, the UUID generator, the clock's ISO string, the
  JSON serializer, the transport and the timer (over the state \<open>'w\<close> of the world),
  zod's email and URL checks and the message zod gives a ZodError.
\<close>

record ('w, 'h) Platform =
  crypto :: "'h CryptoJS"
  uuidv4 :: "'w \<Rightarrow> string \<times> 'w"
  toISOString :: "'w \<Rightarrow> string \<times> 'w"
  JSON_stringify :: "jsval \<Rightarrow> string"
  global_fetch :: "string \<Rightarrow> RequestInit \<Rightarrow> 'w \<Rightarrow> (thrown + Response) \<times> 'w"
  timeout :: "nat \<Rightarrow> 'w \<Rightarrow> 'w"
  email_valid :: "string \<Rightarrow> bool"
  url_valid :: "string \<Rightarrow> bool"
  zod_message :: "zod_issue list \<Rightarrow> string"

definition generateHeaders ::
  "'h CryptoJS \<Rightarrow> DokuClient \<Rightarrow> string \<Rightarrow> string \<Rightarrow> string \<Rightarrow> string \<Rightarrow> (string \<times> string) list" where
  "generateHeaders cj this requestId requestTimestamp requestTarget body =
     (let digest = generateDigest cj body;
          signature =
            generateSignature cj (cfg_clientId (config this)) requestId requestTarget digest
              (cfg_secretKey (config this)) requestTimestamp
      in [(''Content-Type'', ''application/json''),
          (''Client-Id'', cfg_clientId (config this)),
          (''Request-Id'', requestId),
          (''Request-Timestamp'', requestTimestamp),
          (''Signature'', signature)])"

definition defaultPaymentMethods :: "string list" where
  "defaultPaymentMethods =
     [''VIRTUAL_ACCOUNT_BCA'',
      ''VIRTUAL_ACCOUNT_BANK_MANDIRI'',
      ''VIRTUAL_ACCOUNT_BANK_SYARIAH_MANDIRI'',
      ''VIRTUAL_ACCOUNT_DOKU'',
      ''VIRTUAL_ACCOUNT_BRI'',
      ''VIRTUAL_ACCOUNT_BNI'',
      ''VIRTUAL_ACCOUNT_BANK_PERMATA'',
      ''VIRTUAL_ACCOUNT_BANK_CIMB'',
      ''VIRTUAL_ACCOUNT_BANK_DANAMON'',
      ''ONLINE_TO_OFFLINE_ALFA'',
      ''CREDIT_CARD'',
      ''DIRECT_DEBIT_BRI'',
      ''EMONEY_SHOPEEPAY'',
      ''EMONEY_OVO'',
      ''QRIS'',
      ''PEER_TO_PEER_AKULAKU'',
      ''PEER_TO_PEER_KREDIVO'',
      ''PEER_TO_PEER_INDODANA'']"

text \<open>
  The request body of \<open>createPayment\<close>: \<open>expiredTime\<close> is read from the payment data
  as passed in, the other fields from the validated data.
\<close>

definition requestBody :: "jsval \<Rightarrow> PaymentRequest \<Rightarrow> string \<Rightarrow> thrown + jsval" where
  "requestBody paymentData validatedData requestId =
     bindE (get_prop paymentData ''expiredTime'') (\<lambda>given.
       let expiredTime = js_or given (JNum 60)
       in Inr (JObj
         [(''order'',
           JObj [(''amount'', JNum (pr_amount validatedData)),
                 (''invoice_number'', JStr (pr_orderId validatedData)),
                 (''currency'', JStr ''IDR''),
                 (''callback_url'', JStr (pr_returnUrl validatedData))]),
          (''payment'',
           JObj [(''payment_due_date'', expiredTime),
                 (''payment_method_types'',
                  (case pr_paymentMethodTypes validatedData of
                     Some methods \<Rightarrow> JArr (map JStr methods)
                   | None \<Rightarrow> JArr (map JStr defaultPaymentMethods)))]),
          (''customer'',
           JObj [(''id'',
                  JStr (if pr_customerEmail validatedData \<noteq> []
                        then pr_customerEmail validatedData
                        else ''GUEST-'' @ take 8 requestId)),
                 (''name'', JStr (pr_customerName validatedData)),
                 (''phone'', JStr (pr_customerPhone validatedData)),
                 (''country'', JStr ''ID'')])]))"

datatype details = NoDetails | ErrorData jsval | CaughtError thrown

record DokuPaymentResponse =
  success :: bool
  paymentUrl :: jsval
  invoiceNumber :: jsval
  amount :: jsval
  message :: jsval
  details :: details

text \<open>
  \<open>result.response?.section?.key || result.section?.key\<close>: the nested envelope first, the
  flat one as fallback.
\<close>

definition envelope_field :: "jsval \<Rightarrow> string \<Rightarrow> string \<Rightarrow> thrown + jsval" where
  "envelope_field result section key =
     bindE (get_prop result ''response'') (\<lambda>r.
       let nested = opt_prop (opt_prop r section) key
       in if truthy nested then Inr nested
          else bindE (get_prop result section) (\<lambda>s. Inr (opt_prop s key)))"

text \<open>What \<open>createPayment\<close> makes of the response the transport returned.\<close>

definition handleResponse :: "Response \<Rightarrow> thrown + DokuPaymentResponse" where
  "handleResponse response =
     (if \<not> ok response
      then
        bindE (json response) (\<lambda>errorData.
        bindE (get_prop errorData ''error'') (\<lambda>err.
          Inr \<lparr>success = False, paymentUrl = JUndefined, invoiceNumber = JUndefined,
               amount = JUndefined,
               message = js_or (opt_prop err ''message'') (JStr ''Failed to create payment''),
               details = ErrorData errorData\<rparr>))
      else
        bindE (json response) (\<lambda>result.
        bindE (envelope_field result ''payment'' ''url'') (\<lambda>url.
        bindE (envelope_field result ''order'' ''invoice_number'') (\<lambda>invoice.
        bindE (envelope_field result ''order'' ''amount'') (\<lambda>amt.
          Inr \<lparr>success = True, paymentUrl = url, invoiceNumber = invoice, amount = amt,
               message = JUndefined, details = NoDetails\<rparr>)))))"

text \<open>
  The body of the \<open>try\<close> block of \<open>createPayment\<close>, threading the state of the world
  through the id generator, the clock and the transport; \<open>Inl\<close> is a thrown value.
\<close>

definition createPayment_try ::
  "('w, 'h) Platform \<Rightarrow> DokuClient \<Rightarrow> jsval \<Rightarrow> 'w \<Rightarrow> (thrown + DokuPaymentResponse) \<times> 'w" where
  "createPayment_try P this paymentData w =
     (case PaymentRequestSchema_parse (email_valid P) (url_valid P) paymentData of
        Inl e \<Rightarrow> (Inl e, w)
      | Inr validatedData \<Rightarrow>
          (case uuidv4 P w of (requestId, w1) \<Rightarrow>
           case toISOString P w1 of (now, w2) \<Rightarrow>
           let requestTimestamp = take 19 now @ ''Z'';
               requestTarget = ''/checkout/v1/payment''
           in case requestBody paymentData validatedData requestId of
                Inl e \<Rightarrow> (Inl e, w2)
              | Inr body \<Rightarrow>
                  let requestBodyString = JSON_stringify P body;
                      headers =
                        generateHeaders (crypto P) this requestId requestTimestamp
                          requestTarget requestBodyString
                  in case fetchWithRetry (global_fetch P) (timeout P)
                            (baseUrl this @ requestTarget)
                            \<lparr>init_method = ''POST'', init_headers = headers,
                             init_body = requestBodyString\<rparr>
                            3 w2 of
                       (Inl e, w3) \<Rightarrow> (Inl e, w3)
                     | (Inr response, w3) \<Rightarrow> (handleResponse response, w3)))"

text \<open>
  \<open>error?.message\<close> of a caught value. The message of a ZodError is computed by zod
  from its issues: \<open>zm\<close>.
\<close>

definition thrown_message :: "(zod_issue list \<Rightarrow> string) \<Rightarrow> thrown \<Rightarrow> jsval" where
  "thrown_message zm error =
     (case error of
        ZodError is \<Rightarrow> JStr (zm is)
      | Error name msg \<Rightarrow> JStr msg
      | Thrown v \<Rightarrow> opt_prop v ''message'')"

text \<open>
  \<open>createPayment\<close>: the \<open>try\<close> block and its \<open>catch\<close>. Writing to the console is
  not modelled.
\<close>

definition createPayment ::
  "('w, 'h) Platform \<Rightarrow> DokuClient \<Rightarrow> jsval \<Rightarrow> 'w \<Rightarrow> DokuPaymentResponse \<times> 'w" where
  "createPayment P this paymentData w =
     (case createPayment_try P this paymentData w of
        (Inr r, w1) \<Rightarrow> (r, w1)
      | (Inl error, w1) \<Rightarrow>
          (\<lparr>success = False, paymentUrl = JUndefined, invoiceNumber = JUndefined,
            amount = JUndefined,
            message = js_or (thrown_message (zod_message P) error)
                        (JStr ''Internal server error''),
            details = CaughtError error\<rparr>, w1))"

section \<open>The tests' fixtures\<close>

text \<open>
  The tests replace \<open>fetch\<close> by a mock that answers from a queue of outcomes and then
  with a default outcome. The other platform functions of the fixture are stand-ins.
\<close>

definition jest_mock ::
  "thrown + Response \<Rightarrow> string \<Rightarrow> RequestInit \<Rightarrow> (thrown + Response) list \<Rightarrow>
   (thrown + Response) \<times> (thrown + Response) list" where
  "jest_mock dflt url options queue =
     (case queue of [] \<Rightarrow> (dflt, []) | x # xs \<Rightarrow> (x, xs))"

definition test_platform :: "(nat \<times> (thrown + Response) list, string) Platform" where
  "test_platform =
     \<lparr>crypto = \<lparr>SHA256 = (\<lambda>m. m), HmacSHA256 = (\<lambda>m k. k @ m), Base64_stringify = (\<lambda>h. h)\<rparr>,
      uuidv4 = (\<lambda>w. (''123e4567-e89b-42d3-a456-426614174000'', w)),
      toISOString = (\<lambda>w. (''2023-01-01T00:00:00.000Z'', w)),
      JSON_stringify = (\<lambda>v. ''{}''),
      global_fetch = counting (jest_mock (Inl (Error ''Error'' ''Network Error''))),
      timeout = counting_delay (\<lambda>ms w. w),
      email_valid = (\<lambda>s. CHR ''@'' \<in> set s),
      url_valid = (\<lambda>s. take 8 s = ''https://''),
      zod_message = (\<lambda>is. ''[]'')\<rparr>"

text \<open>The configuration and the client of the repository's tests.\<close>

definition test_config :: jsval where
  "test_config =
     JObj [(''clientId'', JStr ''TEST-CLIENT-ID''),
           (''secretKey'', JStr ''TEST-SECRET-KEY''),
           (''isProduction'', JBool False)]"

definition test_client :: DokuClient where
  "test_client =
     \<lparr>config = \<lparr>cfg_clientId = ''TEST-CLIENT-ID'', cfg_secretKey = ''TEST-SECRET-KEY'',
                 cfg_isProduction = False\<rparr>,
      baseUrl = ''https://api-sandbox.doku.com''\<rparr>"

definition test_request :: RequestInit where
  "test_request = \<lparr>init_method = ''POST'', init_headers = [], init_body = ''{}''\<rparr>"

definition response_with :: "int \<Rightarrow> Response" where
  "response_with code = \<lparr>status = code, json = Inr (JObj [])\<rparr>"

definition test_success_response :: Response where
  "test_success_response =
     \<lparr>status = 200,
      json = Inr (JObj [(''response'',
               JObj [(''payment'', JObj [(''url'', JStr ''https://example.com/payment'')]),
                     (''order'', JObj [(''invoice_number'', JStr ''INV-123''),
                                      (''amount'', JNum 10000)])])])\<rparr>"

definition test_error_response :: Response where
  "test_error_response =
     \<lparr>status = 400,
      json = Inr (JObj [(''error'', JObj [(''message'', JStr ''Invalid Request'')])])\<rparr>"

definition failing_queue :: "(thrown + Response) list" where
  "failing_queue =
     [Inl (Error ''Error'' ''first failure''),
      Inl (Error ''Error'' ''second failure''),
      Inl (Error ''Error'' ''third failure''),
      Inl (Error ''Error'' ''Network Error'')]"

definition test_payment :: jsval where
  "test_payment =
     JObj [(''orderId'', JStr ''INV-123''),
           (''amount'', JNum 10000),
           (''customerName'', JStr ''John Doe''),
           (''customerEmail'', JStr ''john@example.com''),
           (''customerPhone'', JStr ''08123456789''),
           (''returnUrl'', JStr ''https://example.com/callback'')]"

text \<open>
  Two inputs of \<open>generateSignature\<close>, as tuples (client id, request id, timestamp,
  target, digest), differ in exactly one canonical field.
\<close>

definition fields_differ_in_one ::
  "string \<times> string \<times> string \<times> string \<times> string \<Rightarrow>
   string \<times> string \<times> string \<times> string \<times> string \<Rightarrow> bool" where
  "fields_differ_in_one a b =
     (case (a, b) of
        ((c1, r1, ts1, t1, d1), (c2, r2, ts2, t2, d2)) \<Rightarrow>
          length (filter (\<lambda>(x, y). x \<noteq> y)
                    [(c1, c2), (r1, r2), (ts1, ts2), (t1, t2), (d1, d2)]) = 1)"

section \<open>Properties of the signature module\<close>

lemma componentSignature_canonical:
  "componentSignature c r t d ts = canonical_string c r ts t d"
  by (simp add: componentSignature_def canonical_string_def Let_def)

text \<open>
  C2. The signature is the tag \<open>HMACSHA256=\<close> followed by the base64 text of the
  HMAC-SHA256, keyed by the secret key, of the canonical string: the four fixed lines
  joined by line feeds with no trailing one, and the \<open>Digest\<close> line exactly when the
  digest is non-empty.
\<close>

theorem generateSignature_format:
  "generateSignature cj c r t d k ts =
     ''HMACSHA256='' @ Base64_stringify cj (HmacSHA256 cj (canonical_string c r ts t d) k)
   \<and> canonical_string c r ts t [] =
       ''Client-Id:'' @ c @ LF @ ''Request-Id:'' @ r @ LF @
       ''Request-Timestamp:'' @ ts @ LF @ ''Request-Target:'' @ t
   \<and> canonical_string c r ts t (x # xs) =
       ''Client-Id:'' @ c @ LF @ ''Request-Id:'' @ r @ LF @
       ''Request-Timestamp:'' @ ts @ LF @ ''Request-Target:'' @ t @ LF @
       ''Digest:'' @ x # xs"
  by (simp add: generateSignature_def componentSignature_canonical canonical_string_def)

text \<open>
  The canonical string separates two inputs that differ in exactly one of its fields.
\<close>

lemma canonical_unfold:
  "canonical_string c r ts t d =
     ''Client-Id:'' @ c @ LF @ ''Request-Id:'' @ r @ LF @
       ''Request-Timestamp:'' @ ts @ LF @ ''Request-Target:'' @ t @
       (if d \<noteq> [] then LF @ ''Digest:'' @ d else [])"
  by (simp add: canonical_string_def)

lemma digest_suffix_inj:
  "(if d1 \<noteq> [] then LF @ ''Digest:'' @ d1 else []) = (if d2 \<noteq> [] then LF @ ''Digest:'' @ d2 else [])
   \<Longrightarrow> d1 = d2"
  by (auto simp: LF_def split: if_splits)

lemma canonical_one_field:
  assumes "fields_differ_in_one (c1, r1, ts1, t1, d1) (c2, r2, ts2, t2, d2)"
  shows "canonical_string c1 r1 ts1 t1 d1 \<noteq> canonical_string c2 r2 ts2 t2 d2"
proof
  assume eq: "canonical_string c1 r1 ts1 t1 d1 = canonical_string c2 r2 ts2 t2 d2"
  from assms consider
      (c) "c1 \<noteq> c2" "r1 = r2" "ts1 = ts2" "t1 = t2" "d1 = d2"
    | (r) "c1 = c2" "r1 \<noteq> r2" "ts1 = ts2" "t1 = t2" "d1 = d2"
    | (ts) "c1 = c2" "r1 = r2" "ts1 \<noteq> ts2" "t1 = t2" "d1 = d2"
    | (t) "c1 = c2" "r1 = r2" "ts1 = ts2" "t1 \<noteq> t2" "d1 = d2"
    | (d) "c1 = c2" "r1 = r2" "ts1 = ts2" "t1 = t2" "d1 \<noteq> d2"
    by (auto simp: fields_differ_in_one_def split: if_splits)
  then show False
  proof cases
    case c
    with eq show False by (simp add: canonical_unfold)
  next
    case r
    with eq show False by (simp add: canonical_unfold)
  next
    case ts
    with eq show False by (simp add: canonical_unfold)
  next
    case t
    with eq show False by (simp add: canonical_unfold)
  next
    case d
    with eq have "(if d1 \<noteq> [] then LF @ ''Digest:'' @ d1 else []) = (if d2 \<noteq> [] then LF @ ''Digest:'' @ d2 else [])"
      by (simp add: canonical_unfold)
    from digest_suffix_inj [OF this] d show False by simp
  qed
qed

section \<open>Properties of the constructor and the verifier\<close>

lemma test_client_constructed: "DokuClient_new test_config = Inr test_client"
  by (simp add: DokuClient_new_def ConfigSchema_parse_def test_config_def test_client_def
      own_prop_def z_string_min_def z_boolean_def z_field_def)

lemma z_string_min_Inr:
  "z_string_min p n msg v = Inr s \<Longrightarrow> v = JStr s \<and> n \<le> length s"
  by (auto simp: z_string_min_def split: jsval.splits if_splits)

lemma z_boolean_Inr: "z_boolean p v = Inr b \<Longrightarrow> v = JBool b"
  by (auto simp: z_boolean_def split: jsval.splits)

lemma z_field_Inr:
  "z_field f x = Inr y \<Longrightarrow> \<exists>g v. f = Inr g \<and> x = Inr v \<and> y = g v"
  by (auto simp: z_field_def split: sum.splits)

lemma ConfigSchema_parse_Inr:
  assumes "ConfigSchema_parse cfg = Inr c"
  shows "opt_prop cfg ''clientId'' = JStr (cfg_clientId c)
       \<and> opt_prop cfg ''secretKey'' = JStr (cfg_secretKey c)
       \<and> opt_prop cfg ''isProduction'' = JBool (cfg_isProduction c)
       \<and> cfg_clientId c \<noteq> [] \<and> cfg_secretKey c \<noteq> []"
proof (cases cfg)
  case (JObj kvs)
  from assms have
    "z_field (z_field (z_field
       (Inr (\<lambda>a b c. \<lparr>cfg_clientId = a, cfg_secretKey = b, cfg_isProduction = c\<rparr>))
       (z_string_min [Key ''clientId''] 1 ''Client ID is required'' (own_prop kvs ''clientId'')))
       (z_string_min [Key ''secretKey''] 1 ''Secret Key is required''
          (own_prop kvs ''secretKey'')))
       (z_boolean [Key ''isProduction''] (own_prop kvs ''isProduction'')) = Inr c"
    unfolding ConfigSchema_parse_def JObj by (simp split: sum.splits)
  then obtain cv sv pv where
    c: "z_string_min [Key ''clientId''] 1 ''Client ID is required''
          (own_prop kvs ''clientId'') = Inr cv" and
    s: "z_string_min [Key ''secretKey''] 1 ''Secret Key is required''
          (own_prop kvs ''secretKey'') = Inr sv" and
    p: "z_boolean [Key ''isProduction''] (own_prop kvs ''isProduction'') = Inr pv" and
    r: "c = \<lparr>cfg_clientId = cv, cfg_secretKey = sv, cfg_isProduction = pv\<rparr>"
    by (auto dest!: z_field_Inr)
  from z_string_min_Inr [OF c] z_string_min_Inr [OF s] z_boolean_Inr [OF p] r JObj
  show ?thesis by auto
qed (use assms in \<open>simp_all add: ConfigSchema_parse_def\<close>)

lemma ConfigSchema_parse_cases:
  "(\<exists>is. ConfigSchema_parse cfg = Inl (ZodError is)) \<or> (\<exists>c. ConfigSchema_parse cfg = Inr c)"
  by (cases cfg) (auto simp: ConfigSchema_parse_def split: sum.splits)

lemma DokuClient_new_Inr:
  assumes "DokuClient_new cfg = Inr this"
  shows "ConfigSchema_parse cfg = Inr (config this)
       \<and> baseUrl this = (if cfg_isProduction (config this) then ''https://api.doku.com''
                          else ''https://api-sandbox.doku.com'')"
proof -
  from assms obtain c where c: "ConfigSchema_parse cfg = Inr c"
    by (auto simp: DokuClient_new_def split: sum.splits)
  from ConfigSchema_parse_Inr [OF c] have p: "opt_prop cfg ''isProduction'' = JBool (cfg_isProduction c)"
    by simp
  then obtain kvs where kvs: "cfg = JObj kvs"
    by (cases cfg) simp_all
  from p kvs have "get_prop cfg ''isProduction'' = Inr (JBool (cfg_isProduction c))"
    by simp
  with assms c show ?thesis
    by (auto simp: DokuClient_new_def)
qed

lemma DokuClient_new_cases:
  "(\<exists>is. DokuClient_new cfg = Inl (ZodError is)) \<or> (\<exists>this. DokuClient_new cfg = Inr this)"
proof -
  from ConfigSchema_parse_cases [of cfg] show ?thesis
  proof
    assume "\<exists>is. ConfigSchema_parse cfg = Inl (ZodError is)"
    then show ?thesis by (auto simp: DokuClient_new_def)
  next
    assume "\<exists>c. ConfigSchema_parse cfg = Inr c"
    then obtain c where c: "ConfigSchema_parse cfg = Inr c" ..
    from ConfigSchema_parse_Inr [OF c] obtain kvs where "cfg = JObj kvs"
      by (cases cfg) simp_all
    with c show ?thesis by (simp add: DokuClient_new_def)
  qed
qed

text \<open>
  C10. Constructing a client throws (a ZodError) whenever \<open>clientId\<close> is the empty
  string, \<open>secretKey\<close> is the empty string, or \<open>isProduction\<close> is not a boolean. When
  construction succeeds, the stored credentials and flag are the ones supplied, and the
  base URL is the production host when the flag is true and the sandbox host otherwise.
\<close>

theorem constructor_validation:
  "(opt_prop cfg ''clientId'' = JStr [] \<or> opt_prop cfg ''secretKey'' = JStr [] \<or>
      (\<forall>b. opt_prop cfg ''isProduction'' \<noteq> JBool b)
     \<longrightarrow> (\<exists>is. DokuClient_new cfg = Inl (ZodError is)))
   \<and> (DokuClient_new cfg = Inr this
     \<longrightarrow> opt_prop cfg ''clientId'' = JStr (cfg_clientId (config this))
       \<and> opt_prop cfg ''secretKey'' = JStr (cfg_secretKey (config this))
       \<and> opt_prop cfg ''isProduction'' = JBool (cfg_isProduction (config this))
       \<and> baseUrl this = (if cfg_isProduction (config this) then ''https://api.doku.com''
                          else ''https://api-sandbox.doku.com''))"
proof (intro conjI impI)
  assume bad: "opt_prop cfg ''clientId'' = JStr [] \<or> opt_prop cfg ''secretKey'' = JStr [] \<or>
      (\<forall>b. opt_prop cfg ''isProduction'' \<noteq> JBool b)"
  show "\<exists>is. DokuClient_new cfg = Inl (ZodError is)"
  proof (rule ccontr)
    assume "\<not> (\<exists>is. DokuClient_new cfg = Inl (ZodError is))"
    with DokuClient_new_cases [of cfg] obtain this where "DokuClient_new cfg = Inr this"
      by blast
    from DokuClient_new_Inr [OF this] have "ConfigSchema_parse cfg = Inr (config this)"
      by simp
    from ConfigSchema_parse_Inr [OF this] bad show False
      by auto
  qed
next
  assume ok: "DokuClient_new cfg = Inr this"
  from DokuClient_new_Inr [OF ok] have p: "ConfigSchema_parse cfg = Inr (config this)"
    by simp
  from ConfigSchema_parse_Inr [OF p]
  show "opt_prop cfg ''clientId'' = JStr (cfg_clientId (config this))"
    and "opt_prop cfg ''secretKey'' = JStr (cfg_secretKey (config this))"
    and "opt_prop cfg ''isProduction'' = JBool (cfg_isProduction (config this))"
    by simp_all
  from DokuClient_new_Inr [OF ok]
  show "baseUrl this = (if cfg_isProduction (config this) then ''https://api.doku.com''
                          else ''https://api-sandbox.doku.com'')"
    by simp
qed

text \<open>
  At the tests' configuration the client is built with the sandbox host; with an empty
  \<open>clientId\<close> the constructor throws.
\<close>

theorem constructor_validation_witness:
  "(\<exists>is. DokuClient_new
            (JObj [(''clientId'', JStr []), (''secretKey'', JStr ''TEST-SECRET-KEY''),
                   (''isProduction'', JBool False)]) = Inl (ZodError is))
   \<and> DokuClient_new test_config = Inr test_client
   \<and> opt_prop test_config ''clientId'' = JStr (cfg_clientId (config test_client))
   \<and> baseUrl test_client = ''https://api-sandbox.doku.com''"
proof -
  have bad: "opt_prop (JObj [(''clientId'', JStr []), (''secretKey'', JStr ''TEST-SECRET-KEY''),
                   (''isProduction'', JBool False)]) ''clientId'' = JStr []"
    by (simp add: own_prop_def)
  from constructor_validation
    [of "JObj [(''clientId'', JStr []), (''secretKey'', JStr ''TEST-SECRET-KEY''),
               (''isProduction'', JBool False)]" test_client] bad
  have 1: "\<exists>is. DokuClient_new
            (JObj [(''clientId'', JStr []), (''secretKey'', JStr ''TEST-SECRET-KEY''),
                   (''isProduction'', JBool False)]) = Inl (ZodError is)"
    by blast
  from constructor_validation [of test_config test_client] test_client_constructed
  have 2: "opt_prop test_config ''clientId'' = JStr (cfg_clientId (config test_client))
         \<and> baseUrl test_client = (if cfg_isProduction (config test_client)
              then ''https://api.doku.com'' else ''https://api-sandbox.doku.com'')"
    by blast
  have 3: "cfg_isProduction (config test_client) = False"
    by (simp add: test_client_def)
  from 1 2 3 test_client_constructed show ?thesis by simp
qed

text \<open>
  On headers of four strings the verifier is true exactly when the four are non-empty,
  the client id is the configured one and the recomputed signature is the received one.
\<close>

lemma validateSignature_typed_policy:
  "validateSignature cj this body h requestTarget =
     (hdr_signature h \<noteq> [] \<and> hdr_timestamp h \<noteq> [] \<and> hdr_requestId h \<noteq> [] \<and>
      hdr_clientId h \<noteq> [] \<and>
      hdr_clientId h = cfg_clientId (config this) \<and>
      generateSignature cj (hdr_clientId h) (hdr_requestId h) requestTarget
        (generateDigest cj body) (cfg_secretKey (config this)) (hdr_timestamp h)
        = hdr_signature h)"
  by (auto simp: validateSignature_def Let_def)

text \<open>On well-typed headers the method as run is the typed one, and it does not throw.\<close>

lemma validateSignature_js_typed:
  "fst (validateSignature_js cj to_string this body (headers_of h) requestTarget calls)
     = Inr (validateSignature cj this body h requestTarget)"
  by (auto simp: validateSignature_js_def validateSignature_def headers_of_def own_prop_def
      Let_def generateDigest_logged_def generateSignature_logged_def concat_operand_def)




lemma validateSignature_own_signature:
  assumes "cfg_clientId (config this) \<noteq> []" and "requestId \<noteq> []" and "timestamp \<noteq> []"
  shows "validateSignature cj this body
     \<lparr>hdr_signature =
        generateSignature cj (cfg_clientId (config this)) requestId requestTarget
          (generateDigest cj body) (cfg_secretKey (config this)) timestamp,
      hdr_timestamp = timestamp,
      hdr_requestId = requestId,
      hdr_clientId = cfg_clientId (config this)\<rparr>
     requestTarget"
  using assms by (simp add: validateSignature_def Let_def generateSignature_def)

text \<open>
  C1. Round trip: on a client constructed from a configuration, a signature produced by
  \<open>generateSignature\<close> with the client's id and secret key over the digest of a body,
  for a non-empty request id and timestamp, is accepted by \<open>validateSignature\<close> for
  that body, request id, timestamp, client id and target.
\<close>

theorem sign_verify_roundtrip:
  assumes "DokuClient_new cfg = Inr this" and "requestId \<noteq> []" and "timestamp \<noteq> []"
  shows "validateSignature cj this body
     \<lparr>hdr_signature =
        generateSignature cj (cfg_clientId (config this)) requestId requestTarget
          (generateDigest cj body) (cfg_secretKey (config this)) timestamp,
      hdr_timestamp = timestamp,
      hdr_requestId = requestId,
      hdr_clientId = cfg_clientId (config this)\<rparr>
     requestTarget"
proof -
  from DokuClient_new_Inr [OF assms(1)] have "ConfigSchema_parse cfg = Inr (config this)"
    by simp
  from ConfigSchema_parse_Inr [OF this] have "cfg_clientId (config this) \<noteq> []"
    by simp
  from validateSignature_own_signature [OF this assms(2) assms(3)] show ?thesis .
qed

text \<open>The round trip of the repository's test, for any hash functions.\<close>

theorem sign_verify_roundtrip_witness:
  "\<forall>cj :: string CryptoJS.
     validateSignature cj test_client ''{}''
       \<lparr>hdr_signature =
          generateSignature cj ''TEST-CLIENT-ID'' ''req-123'' ''/api/callback''
            (generateDigest cj ''{}'') ''TEST-SECRET-KEY'' ''2023-01-01T00:00:00Z'',
        hdr_timestamp = ''2023-01-01T00:00:00Z'',
        hdr_requestId = ''req-123'',
        hdr_clientId = ''TEST-CLIENT-ID''\<rparr>
       ''/api/callback''"
proof
  fix cj :: "string CryptoJS"
  have r: "''req-123'' \<noteq> []" and t: "''2023-01-01T00:00:00Z'' \<noteq> []"
    by simp_all
  have c: "cfg_clientId (config test_client) = ''TEST-CLIENT-ID''"
    and k: "cfg_secretKey (config test_client) = ''TEST-SECRET-KEY''"
    by (simp_all add: test_client_def)
  from sign_verify_roundtrip [OF test_client_constructed r t, of cj "''{}''" "''/api/callback''"]
  show "validateSignature cj test_client ''{}''
       \<lparr>hdr_signature =
          generateSignature cj ''TEST-CLIENT-ID'' ''req-123'' ''/api/callback''
            (generateDigest cj ''{}'') ''TEST-SECRET-KEY'' ''2023-01-01T00:00:00Z'',
        hdr_timestamp = ''2023-01-01T00:00:00Z'',
        hdr_requestId = ''req-123'',
        hdr_clientId = ''TEST-CLIENT-ID''\<rparr>
       ''/api/callback''"
    unfolding c k .
qed

section \<open>Properties of the transport\<close>

lemma fetchWithRetry_resolved:
  assumes "fetch url options w = (Inr response, w1)"
  shows "fetchWithRetry fetch delay url options retries w =
     (if ok response then (Inr response, w1)
      else if retries > 0 \<and> status response \<ge> 500
      then fetchWithRetry fetch delay url options (retries - 1) (delay 1000 w1)
      else (Inr response, w1))"
  using assms by (subst fetchWithRetry.simps) simp

lemma fetchWithRetry_rejected:
  assumes "fetch url options w = (Inl error, w1)"
  shows "fetchWithRetry fetch delay url options retries w =
     (if retries > 0
      then fetchWithRetry fetch delay url options (retries - 1) (delay 1000 w1)
      else (Inl error, w1))"
  using assms by (subst fetchWithRetry.simps) simp

text \<open>
  C4. When the transport resolves with a response: a response that is ok (status 200 to
  299) is the result, with the world as that one call left it; so is a response with a
  status from 400 to 499; a response with a status of 500 or more, while the budget is
  positive, makes the result that of a new run with the budget decremented, after the
  one-second timer; and with no budget left that response is the result, as a response.
\<close>

theorem fetchWithRetry_status_classes:
  assumes "fetch url options w = (Inr response, w1)"
  shows "(ok response \<longrightarrow>
            fetchWithRetry fetch delay url options retries w = (Inr response, w1))
       \<and> (400 \<le> status response \<and> status response < 500 \<longrightarrow>
            fetchWithRetry fetch delay url options retries w = (Inr response, w1))
       \<and> (500 \<le> status response \<and> 0 < retries \<longrightarrow>
            fetchWithRetry fetch delay url options retries w =
              fetchWithRetry fetch delay url options (retries - 1) (delay 1000 w1))
       \<and> (500 \<le> status response \<and> retries \<le> 0 \<longrightarrow>
            fetchWithRetry fetch delay url options retries w = (Inr response, w1))"
proof -
  note step = fetchWithRetry_resolved
    [where fetch = fetch and url = url and options = options and w = w, OF assms,
     of delay retries]
  show ?thesis
    unfolding step by (simp add: ok_def)
qed

text \<open>
  The tests' sequences: a 200 is returned at once; a 400 is returned at once and the
  queued 200 is never asked for; a 500 with budget 3 leads to the next attempt with
  budget 2, whose 200 is the result; a 500 with budget 0 is returned.
\<close>

theorem fetchWithRetry_status_classes_witness:
  "fetchWithRetry (jest_mock (Inl (Error ''Error'' ''Network Error''))) (\<lambda>ms w. w)
       ''https://api-sandbox.doku.com/checkout/v1/payment'' test_request 3
       [Inr (response_with 200)]
     = (Inr (response_with 200), [])
   \<and> fetchWithRetry (jest_mock (Inl (Error ''Error'' ''Network Error''))) (\<lambda>ms w. w)
       ''https://api-sandbox.doku.com/checkout/v1/payment'' test_request 3
       [Inr (response_with 400), Inr (response_with 200)]
     = (Inr (response_with 400), [Inr (response_with 200)])
   \<and> fetchWithRetry (jest_mock (Inl (Error ''Error'' ''Network Error''))) (\<lambda>ms w. w)
       ''https://api-sandbox.doku.com/checkout/v1/payment'' test_request 3
       [Inr (response_with 500), Inr (response_with 200)]
     = (Inr (response_with 200), [])
   \<and> fetchWithRetry (jest_mock (Inl (Error ''Error'' ''Network Error''))) (\<lambda>ms w. w)
       ''https://api-sandbox.doku.com/checkout/v1/payment'' test_request 0
       [Inr (response_with 500), Inr (response_with 200)]
     = (Inr (response_with 500), [Inr (response_with 200)])"
proof -
  let ?f = "jest_mock (Inl (Error ''Error'' ''Network Error''))"
  let ?d = "\<lambda>(ms::nat) (w::(thrown + Response) list). w"
  let ?u = "''https://api-sandbox.doku.com/checkout/v1/payment''"
  have q200: "?f ?u test_request [Inr (response_with 200)] = (Inr (response_with 200), [])"
    by (simp add: jest_mock_def)
  have q400: "?f ?u test_request [Inr (response_with 400), Inr (response_with 200)]
      = (Inr (response_with 400), [Inr (response_with 200)])"
    by (simp add: jest_mock_def)
  have q500: "?f ?u test_request [Inr (response_with 500), Inr (response_with 200)]
      = (Inr (response_with 500), [Inr (response_with 200)])"
    by (simp add: jest_mock_def)
  have ok200: "ok (response_with 200)"
    and st400: "400 \<le> status (response_with 400) \<and> status (response_with 400) < 500"
    and st500: "500 \<le> status (response_with 500)"
    by (simp_all add: ok_def response_with_def)
  from fetchWithRetry_status_classes
         [where fetch = ?f and url = ?u and options = test_request, OF q200, of ?d 3] ok200
  have a: "fetchWithRetry ?f ?d ?u test_request 3 [Inr (response_with 200)]
      = (Inr (response_with 200), [])"
    by blast
  from fetchWithRetry_status_classes
         [where fetch = ?f and url = ?u and options = test_request, OF q200, of ?d 2] ok200
  have a2: "fetchWithRetry ?f ?d ?u test_request 2 [Inr (response_with 200)]
      = (Inr (response_with 200), [])"
    by blast
  from fetchWithRetry_status_classes
         [where fetch = ?f and url = ?u and options = test_request, OF q400, of ?d 3] st400
  have b: "fetchWithRetry ?f ?d ?u test_request 3
        [Inr (response_with 400), Inr (response_with 200)]
      = (Inr (response_with 400), [Inr (response_with 200)])"
    by blast
  from fetchWithRetry_status_classes
         [where fetch = ?f and url = ?u and options = test_request, OF q500, of ?d 3] st500
  have "fetchWithRetry ?f ?d ?u test_request 3
        [Inr (response_with 500), Inr (response_with 200)]
      = fetchWithRetry ?f ?d ?u test_request (3 - 1) [Inr (response_with 200)]"
    by simp
  with a2 have c: "fetchWithRetry ?f ?d ?u test_request 3
        [Inr (response_with 500), Inr (response_with 200)]
      = (Inr (response_with 200), [])"
    by simp
  from fetchWithRetry_status_classes
         [where fetch = ?f and url = ?u and options = test_request, OF q500, of ?d 0] st500
  have d: "fetchWithRetry ?f ?d ?u test_request 0
        [Inr (response_with 500), Inr (response_with 200)]
      = (Inr (response_with 500), [Inr (response_with 200)])"
    by simp
  from a b c d show ?thesis by blast
qed

lemma counting_run:
  "fetchWithRetry (counting fetch) (counting_delay delay) url options retries (calls, w) =
     (res, (calls', w'))
   \<Longrightarrow> fetchWithRetry fetch delay url options retries w = (res, w')
     \<and> calls < calls' \<and> calls' \<le> calls + nat retries + 1"
proof (induction "nat retries" arbitrary: retries calls w)
  case 0
  obtain r w1 where f: "fetch url options w = (r, w1)" by (cases "fetch url options w")
  then have cf: "counting fetch url options (calls, w) = (r, (Suc calls, w1))"
    by (simp add: counting_def)
  note s1 = fetchWithRetry.simps
    [of "counting fetch" "counting_delay delay" url options retries "(calls, w)"]
  note s2 = fetchWithRetry.simps [of fetch delay url options retries w]
  from 0 have le: "\<not> retries > 0" by simp
  from "0.prems" show ?case
    unfolding s1 s2 cf f using le by (auto split: sum.splits if_splits)
next
  case (Suc n)
  obtain r w1 where f: "fetch url options w = (r, w1)" by (cases "fetch url options w")
  then have cf: "counting fetch url options (calls, w) = (r, (Suc calls, w1))"
    by (simp add: counting_def)
  from Suc.hyps have pos: "0 < retries" and n: "n = nat (retries - 1)" by simp_all
  have cd: "counting_delay delay 1000 (Suc calls, w1) = (Suc calls, delay 1000 w1)"
    by (simp add: counting_delay_def)
  note s1 = fetchWithRetry.simps
    [of "counting fetch" "counting_delay delay" url options retries "(calls, w)"]
  note s2 = fetchWithRetry.simps [of fetch delay url options retries w]
  note IH = Suc.hyps(1) [OF n, of "Suc calls" "delay 1000 w1"]
  have bound: "Suc calls + nat (retries - 1) + 1 = calls + nat retries + 1"
    using pos by simp
  show ?case
  proof (cases "\<exists>response. r = Inr response \<and> (ok response \<or> \<not> status response \<ge> 500)")
    case True
    with Suc.prems show ?thesis
      unfolding s1 s2 cf f by (auto split: if_splits)
  next
    case False
    with Suc.prems pos
    have "fetchWithRetry (counting fetch) (counting_delay delay) url options (retries - 1)
            (Suc calls, delay 1000 w1) = (res, (calls', w'))"
      unfolding s1 cf cd [symmetric] by (auto split: sum.splits if_splits)
    from IH [OF this] bound
    have "fetchWithRetry fetch delay url options (retries - 1) (delay 1000 w1) = (res, w')"
      and "calls < calls'" and "calls' \<le> calls + nat retries + 1"
      by simp_all
    with False pos show ?thesis
      unfolding s2 f by (auto split: sum.splits)
  qed
qed

lemma counting_rejecting_run:
  "(\<forall>k. k \<le> nat retries \<longrightarrow>
      (\<exists>e. fst (fetch url options (world_before fetch delay url options k w)) = Inl e))
   \<Longrightarrow> fetchWithRetry (counting fetch) (counting_delay delay) url options retries (calls, w) =
       (fst (fetch url options (world_before fetch delay url options (nat retries) w)),
        (calls + nat retries + 1,
         snd (fetch url options (world_before fetch delay url options (nat retries) w))))"
proof (induction "nat retries" arbitrary: retries calls w)
  case 0
  from "0.prems" have "\<exists>e. fst (fetch url options (world_before fetch delay url options 0 w)) = Inl e"
    by blast
  then obtain e w1 where f: "fetch url options w = (Inl e, w1)"
    by (cases "fetch url options w") auto
  then have cf: "counting fetch url options (calls, w) = (Inl e, (Suc calls, w1))"
    by (simp add: counting_def)
  note s1 = fetchWithRetry.simps
    [of "counting fetch" "counting_delay delay" url options retries "(calls, w)"]
  from "0.hyps" have le: "\<not> retries > 0" and z: "nat retries = 0" by simp_all
  show ?case
    unfolding s1 cf z using le f by simp
next
  case (Suc n)
  from Suc.prems have "\<exists>e. fst (fetch url options (world_before fetch delay url options 0 w)) = Inl e"
    by blast
  then obtain e w1 where f: "fetch url options w = (Inl e, w1)"
    by (cases "fetch url options w") auto
  then have cf: "counting fetch url options (calls, w) = (Inl e, (Suc calls, w1))"
    by (simp add: counting_def)
  from Suc.hyps have pos: "0 < retries" and n: "n = nat (retries - 1)"
    and sn: "nat retries = Suc (nat (retries - 1))" by simp_all
  have cd: "counting_delay delay 1000 (Suc calls, w1) = (Suc calls, delay 1000 w1)"
    by (simp add: counting_delay_def)
  note s1 = fetchWithRetry.simps
    [of "counting fetch" "counting_delay delay" url options retries "(calls, w)"]
  have shift: "\<And>k. world_before fetch delay url options k (delay 1000 w1)
      = world_before fetch delay url options (Suc k) w"
    using f by simp
  have hyp: "\<forall>k. k \<le> nat (retries - 1) \<longrightarrow>
      (\<exists>e. fst (fetch url options (world_before fetch delay url options k (delay 1000 w1))) = Inl e)"
  proof (intro allI impI)
    fix k assume "k \<le> nat (retries - 1)"
    then have "Suc k \<le> nat retries" using sn by simp
    with Suc.prems
    have "\<exists>e. fst (fetch url options (world_before fetch delay url options (Suc k) w)) = Inl e"
      by blast
    then show "\<exists>e. fst (fetch url options
        (world_before fetch delay url options k (delay 1000 w1))) = Inl e"
      unfolding shift .
  qed
  note IH = Suc.hyps(1) [OF n hyp, of "Suc calls"]
  have step: "fetchWithRetry (counting fetch) (counting_delay delay) url options retries (calls, w)
      = fetchWithRetry (counting fetch) (counting_delay delay) url options (retries - 1)
          (Suc calls, delay 1000 w1)"
    unfolding s1 cf cd [symmetric] using pos by simp
  show ?case
    unfolding step IH shift sn by simp
qed

text \<open>
  C5. \<open>fetchWithRetry\<close> is a total function: every run ends. For every budget the run
  makes at least one and at most \<open>max budget 0 + 1\<close> transport calls, so at most 4 with
  the default budget of 3, and counting the calls changes neither the result nor the
  world. If the transport rejects each of the attempts the run makes, the run makes
  exactly \<open>max budget 0 + 1\<close> calls, and its outcome is the outcome of the last of
  them: the thrown value that call rejected with, not a response, in the world that
  call left.
\<close>

theorem fetchWithRetry_attempts:
  "1 \<le> attempts fetch delay url options retries w
   \<and> attempts fetch delay url options retries w \<le> nat retries + 1
   \<and> attempts fetch delay url options 3 w \<le> 4
   \<and> fetchWithRetry (counting fetch) (counting_delay delay) url options retries (0, w)
       = (fst (fetchWithRetry fetch delay url options retries w),
          (attempts fetch delay url options retries w,
           snd (fetchWithRetry fetch delay url options retries w)))
   \<and> ((\<forall>k. k \<le> nat retries \<longrightarrow>
          (\<exists>e. fst (fetch url options (world_before fetch delay url options k w)) = Inl e))
      \<longrightarrow> attempts fetch delay url options retries w = nat retries + 1
        \<and> fetchWithRetry fetch delay url options retries w
            = fetch url options (world_before fetch delay url options (nat retries) w)
        \<and> (\<exists>e. fst (fetchWithRetry fetch delay url options retries w) = Inl e))"
proof -
  have run: "\<And>n. \<exists>res calls' w'.
      fetchWithRetry (counting fetch) (counting_delay delay) url options n (0, w)
        = (res, (calls', w'))"
    by (metis surj_pair)
  from run [of retries] obtain res calls' w' where
    r: "fetchWithRetry (counting fetch) (counting_delay delay) url options retries (0, w)
        = (res, (calls', w'))"
    by blast
  from run [of 3] obtain res3 calls3 w3 where
    r3: "fetchWithRetry (counting fetch) (counting_delay delay) url options 3 (0, w)
        = (res3, (calls3, w3))"
    by blast
  note b = counting_run [OF r] and b3 = counting_run [OF r3]
  have 1: "1 \<le> attempts fetch delay url options retries w"
    and 2: "attempts fetch delay url options retries w \<le> nat retries + 1"
    using b by (simp_all add: attempts_def r)
  have 3: "attempts fetch delay url options 3 w \<le> 4"
    using b3 by (simp add: attempts_def r3)
  have 4: "fetchWithRetry (counting fetch) (counting_delay delay) url options retries (0, w)
       = (fst (fetchWithRetry fetch delay url options retries w),
          (attempts fetch delay url options retries w,
           snd (fetchWithRetry fetch delay url options retries w)))"
    using b by (simp add: attempts_def r)
  have 5: "attempts fetch delay url options retries w = nat retries + 1
        \<and> fetchWithRetry fetch delay url options retries w
            = fetch url options (world_before fetch delay url options (nat retries) w)
        \<and> (\<exists>e. fst (fetchWithRetry fetch delay url options retries w) = Inl e)"
    if rej: "\<forall>k. k \<le> nat retries \<longrightarrow>
          (\<exists>e. fst (fetch url options (world_before fetch delay url options k w)) = Inl e)"
  proof -
    let ?last = "fetch url options (world_before fetch delay url options (nat retries) w)"
    from counting_rejecting_run [OF rej, of 0] r
    have "res = fst ?last" and c: "calls' = nat retries + 1" and "w' = snd ?last"
      by simp_all
    with b have p: "fetchWithRetry fetch delay url options retries w = ?last"
      by simp
    from rej have "\<exists>e. fst ?last = Inl e" by blast
    with p c show ?thesis by (simp add: attempts_def r)
  qed
  from 1 2 3 4 5 show ?thesis by blast
qed

text \<open>
  A network that fails four times and would then answer 200, so it does not reject in
  every world: with the default budget the run makes 4 calls, and its outcome is the
  fourth failure, the one the tests' mock rejects with.
\<close>

theorem fetchWithRetry_attempts_witness:
  "attempts (jest_mock (Inr (response_with 200))) (\<lambda>ms w. w)
       ''https://api-sandbox.doku.com/checkout/v1/payment'' test_request 3 failing_queue = 4
   \<and> fetchWithRetry (jest_mock (Inr (response_with 200))) (\<lambda>ms w. w)
       ''https://api-sandbox.doku.com/checkout/v1/payment'' test_request 3 failing_queue
     = (Inl (Error ''Error'' ''Network Error''), [])"
proof -
  let ?f = "jest_mock (Inr (response_with 200))"
  let ?d = "\<lambda>(ms::nat) (w::(thrown + Response) list). w"
  let ?u = "''https://api-sandbox.doku.com/checkout/v1/payment''"
  have w0: "world_before ?f ?d ?u test_request 0 failing_queue = failing_queue"
    by simp
  have w1: "world_before ?f ?d ?u test_request 1 failing_queue = drop 1 failing_queue"
    by (simp add: jest_mock_def failing_queue_def)
  have w2: "world_before ?f ?d ?u test_request 2 failing_queue = drop 2 failing_queue"
    by (simp add: eval_nat_numeral jest_mock_def failing_queue_def)
  have w3: "world_before ?f ?d ?u test_request 3 failing_queue = drop 3 failing_queue"
    by (simp add: eval_nat_numeral jest_mock_def failing_queue_def)
  have rej: "\<forall>k. k \<le> nat 3 \<longrightarrow>
      (\<exists>e. fst (?f ?u test_request (world_before ?f ?d ?u test_request k failing_queue)) = Inl e)"
  proof (intro allI impI)
    fix k :: nat assume "k \<le> nat 3"
    then consider "k = 0" | "k = 1" | "k = 2" | "k = 3" by force
    then show "\<exists>e. fst (?f ?u test_request
        (world_before ?f ?d ?u test_request k failing_queue)) = Inl e"
    proof cases
      case 1 then show ?thesis unfolding 1 w0 by (simp add: jest_mock_def failing_queue_def)
    next
      case 2 then show ?thesis unfolding 2 w1 by (simp add: jest_mock_def failing_queue_def)
    next
      case 3 then show ?thesis unfolding 3 w2 by (simp add: jest_mock_def failing_queue_def)
    next
      case 4 then show ?thesis unfolding 4 w3 by (simp add: jest_mock_def failing_queue_def)
    qed
  qed
  have n3: "nat 3 = 3" by simp
  have last: "?f ?u test_request (world_before ?f ?d ?u test_request (nat 3) failing_queue)
      = (Inl (Error ''Error'' ''Network Error''), [])"
    unfolding n3 w3 by (simp add: jest_mock_def failing_queue_def)
  from fetchWithRetry_attempts [of ?f ?d ?u test_request 3 failing_queue] rej
  have "attempts ?f ?d ?u test_request 3 failing_queue = nat 3 + 1"
    and "fetchWithRetry ?f ?d ?u test_request 3 failing_queue
      = ?f ?u test_request (world_before ?f ?d ?u test_request (nat 3) failing_queue)"
    by blast+
  with last show ?thesis by simp
qed

section \<open>Properties of the payment client\<close>










lemma test_payment_accepted:
  "PaymentRequestSchema_parse (email_valid test_platform) (url_valid test_platform) test_payment
     = Inr \<lparr>pr_orderId = ''INV-123'', pr_amount = 10000, pr_customerName = ''John Doe'',
            pr_customerEmail = ''john@example.com'', pr_customerPhone = ''08123456789'',
            pr_description = None, pr_returnUrl = ''https://example.com/callback'',
            pr_expiredTime = None, pr_paymentMethodTypes = None\<rparr>"
  by (simp add: PaymentRequestSchema_parse_def test_payment_def test_platform_def own_prop_def
      z_field_def z_string_min_def z_number_positive_def z_string_check_def z_optional_def)


lemma js_or_truthy: "truthy b \<Longrightarrow> truthy (js_or a b)"
  by (simp add: js_or_def)

lemma envelope_field_value:
  "envelope_field result section key = Inr v \<Longrightarrow>
     v = js_or (opt_prop (opt_prop (opt_prop result ''response'') section) key)
               (opt_prop (opt_prop result section) key)"
  by (cases result) (auto simp: envelope_field_def bindE_def js_or_def Let_def split: if_splits)

lemma get_prop_value: "get_prop v k = Inr x \<Longrightarrow> x = opt_prop v k"
  by (cases v) auto

lemma handleResponse_Inr:
  assumes "handleResponse response = Inr res"
  shows "(success res \<longrightarrow>
            ok response \<and>
            (\<exists>result. json response = Inr result
               \<and> paymentUrl res =
                   js_or (opt_prop (opt_prop (opt_prop result ''response'') ''payment'') ''url'')
                         (opt_prop (opt_prop result ''payment'') ''url'')
               \<and> invoiceNumber res =
                   js_or (opt_prop (opt_prop (opt_prop result ''response'') ''order'')
                            ''invoice_number'')
                         (opt_prop (opt_prop result ''order'') ''invoice_number'')))
       \<and> (\<not> success res \<longrightarrow>
            \<not> ok response \<and> truthy (message res) \<and>
            (\<exists>errorData. json response = Inr errorData \<and> details res = ErrorData errorData
               \<and> message res =
                   js_or (opt_prop (opt_prop errorData ''error'') ''message'')
                         (JStr ''Failed to create payment'')))"
proof (cases "ok response")
  case True
  with assms obtain result url invoice amt where
    j: "json response = Inr result" and
    u: "envelope_field result ''payment'' ''url'' = Inr url" and
    i: "envelope_field result ''order'' ''invoice_number'' = Inr invoice" and
    r: "res = \<lparr>success = True, paymentUrl = url, invoiceNumber = invoice, amount = amt,
               message = JUndefined, details = NoDetails\<rparr>"
    by (auto simp: handleResponse_def bindE_def split: sum.splits)
  from envelope_field_value [OF u] envelope_field_value [OF i] j r True
  show ?thesis by simp
next
  case False
  with assms obtain errorData err where
    j: "json response = Inr errorData" and
    e: "get_prop errorData ''error'' = Inr err" and
    r: "res = \<lparr>success = False, paymentUrl = JUndefined, invoiceNumber = JUndefined,
               amount = JUndefined,
               message = js_or (opt_prop err ''message'') (JStr ''Failed to create payment''),
               details = ErrorData errorData\<rparr>"
    by (auto simp: handleResponse_def bindE_def split: sum.splits)
  from get_prop_value [OF e] j r False show ?thesis by (simp add: js_or_truthy)
qed

lemma createPayment_try_Inr:
  assumes "createPayment_try P this paymentData w = (Inr res, w')"
  shows "\<exists>url options w2 response.
           fetchWithRetry (global_fetch P) (timeout P) url options 3 w2 = (Inr response, w')
         \<and> handleResponse response = Inr res"
  using assms unfolding createPayment_try_def Let_def
  by (auto split: sum.splits prod.splits)

lemma createPayment_cases:
  assumes "createPayment P this paymentData w = (res, w')"
  shows "createPayment_try P this paymentData w = (Inr res, w')
       \<or> (\<exists>error. createPayment_try P this paymentData w = (Inl error, w')
            \<and> res = \<lparr>success = False, paymentUrl = JUndefined, invoiceNumber = JUndefined,
                      amount = JUndefined,
                      message = js_or (thrown_message (zod_message P) error)
                                  (JStr ''Internal server error''),
                      details = CaughtError error\<rparr>)"
  using assms unfolding createPayment_def
  by (auto split: sum.splits prod.splits)

text \<open>
  C7, amended. When \<open>createPayment\<close> returns success, the transport's final response
  was ok and its body parsed, and \<open>paymentUrl\<close> and \<open>invoiceNumber\<close> are what that
  body holds for them, under \<open>response\<close> first and at the top level otherwise (so
  they are \<open>undefined\<close> when the body holds neither). When it returns failure, the
  message is present and the details are the raw payload: either the transport's final
  response was not ok, the details are its parsed body and the message is that body's
  \<open>error.message\<close> or else \<open>Failed to create payment\<close>; or a value was thrown in
  the \<open>try\<close> block, the details are that very value and the message is its message or
  else \<open>Internal server error\<close>.
\<close>

theorem createPayment_result:
  assumes "createPayment P this paymentData w = (res, w')"
  shows "(success res \<longrightarrow>
            (\<exists>url options w2 response result.
               fetchWithRetry (global_fetch P) (timeout P) url options 3 w2 = (Inr response, w')
               \<and> ok response \<and> json response = Inr result
               \<and> paymentUrl res =
                   js_or (opt_prop (opt_prop (opt_prop result ''response'') ''payment'') ''url'')
                         (opt_prop (opt_prop result ''payment'') ''url'')
               \<and> invoiceNumber res =
                   js_or (opt_prop (opt_prop (opt_prop result ''response'') ''order'')
                            ''invoice_number'')
                         (opt_prop (opt_prop result ''order'') ''invoice_number'')))
       \<and> (\<not> success res \<longrightarrow>
            truthy (message res)
            \<and> ((\<exists>url options w2 response errorData.
                   fetchWithRetry (global_fetch P) (timeout P) url options 3 w2
                     = (Inr response, w')
                   \<and> \<not> ok response \<and> json response = Inr errorData
                   \<and> details res = ErrorData errorData
                   \<and> message res =
                       js_or (opt_prop (opt_prop errorData ''error'') ''message'')
                             (JStr ''Failed to create payment''))
                \<or> (\<exists>error.
                   createPayment_try P this paymentData w = (Inl error, w')
                   \<and> details res = CaughtError error
                   \<and> message res = js_or (thrown_message (zod_message P) error)
                                      (JStr ''Internal server error''))))"
proof -
  from createPayment_cases [OF assms] show ?thesis
  proof
    assume "createPayment_try P this paymentData w = (Inr res, w')"
    from createPayment_try_Inr [OF this] obtain url options w2 response where
      f: "fetchWithRetry (global_fetch P) (timeout P) url options 3 w2 = (Inr response, w')"
      and h: "handleResponse response = Inr res"
      by blast
    show ?thesis
    proof (cases "success res")
      case True
      with handleResponse_Inr [OF h] obtain result where
        "ok response" and "json response = Inr result" and
        "paymentUrl res =
           js_or (opt_prop (opt_prop (opt_prop result ''response'') ''payment'') ''url'')
                 (opt_prop (opt_prop result ''payment'') ''url'')" and
        "invoiceNumber res =
           js_or (opt_prop (opt_prop (opt_prop result ''response'') ''order'')
                    ''invoice_number'')
                 (opt_prop (opt_prop result ''order'') ''invoice_number'')"
        by blast
      with f True show ?thesis by blast
    next
      case False
      with handleResponse_Inr [OF h] obtain errorData where
        "\<not> ok response" and "truthy (message res)" and "json response = Inr errorData"
        and "details res = ErrorData errorData"
        and "message res =
               js_or (opt_prop (opt_prop errorData ''error'') ''message'')
                     (JStr ''Failed to create payment'')"
        by blast
      with f False show ?thesis by blast
    qed
  next
    assume "\<exists>error. createPayment_try P this paymentData w = (Inl error, w')
            \<and> res = \<lparr>success = False, paymentUrl = JUndefined, invoiceNumber = JUndefined,
                      amount = JUndefined,
                      message = js_or (thrown_message (zod_message P) error)
                                  (JStr ''Internal server error''),
                      details = CaughtError error\<rparr>"
    then obtain error where
      t: "createPayment_try P this paymentData w = (Inl error, w')" and
      r: "res = \<lparr>success = False, paymentUrl = JUndefined, invoiceNumber = JUndefined,
                      amount = JUndefined,
                      message = js_or (thrown_message (zod_message P) error)
                                  (JStr ''Internal server error''),
                      details = CaughtError error\<rparr>"
      by blast
    from r have "\<not> success res" and "truthy (message res)"
      and "details res = CaughtError error"
      and "message res = js_or (thrown_message (zod_message P) error)
                                      (JStr ''Internal server error'')"
      by (simp_all add: js_or_truthy)
    with t show ?thesis by blast
  qed
qed

lemma createPayment_try_fixture:
  "createPayment_try test_platform test_client test_payment (calls, queue) =
     (case fetchWithRetry (counting (jest_mock (Inl (Error ''Error'' ''Network Error''))))
             (counting_delay (\<lambda>ms w. w))
             ''https://api-sandbox.doku.com/checkout/v1/payment''
             \<lparr>init_method = ''POST'',
              init_headers =
                [(''Content-Type'', ''application/json''),
                 (''Client-Id'', ''TEST-CLIENT-ID''),
                 (''Request-Id'', ''123e4567-e89b-42d3-a456-426614174000''),
                 (''Request-Timestamp'', ''2023-01-01T00:00:00Z''),
                 (''Signature'', generateSignature (crypto test_platform) ''TEST-CLIENT-ID''
                    ''123e4567-e89b-42d3-a456-426614174000'' ''/checkout/v1/payment''
                    (generateDigest (crypto test_platform) ''{}'') ''TEST-SECRET-KEY''
                    ''2023-01-01T00:00:00Z'')],
              init_body = ''{}''\<rparr>
             3 (calls, queue) of
        (Inl e, w3) \<Rightarrow> (Inl e, w3)
      | (Inr response, w3) \<Rightarrow> (handleResponse response, w3))"
  unfolding createPayment_try_def test_payment_accepted
  by (simp add: test_platform_def test_client_def requestBody_def bindE_def
      test_payment_def own_prop_def generateHeaders_def Let_def)


text \<open>
  C7, as stated, fails: a 200 response whose body is the empty object gives a success
  result with neither payment URL nor invoice number.
\<close>

theorem createPayment_success_without_url:
  "success (fst (createPayment test_platform test_client test_payment
                   (0, [Inr (response_with 200)])))
   \<and> paymentUrl (fst (createPayment test_platform test_client test_payment
                        (0, [Inr (response_with 200)]))) = JUndefined
   \<and> invoiceNumber (fst (createPayment test_platform test_client test_payment
                        (0, [Inr (response_with 200)]))) = JUndefined"
  unfolding createPayment_def createPayment_try_fixture
  by (simp add: fetchWithRetry.simps counting_def jest_mock_def ok_def response_with_def
      handleResponse_def bindE_def envelope_field_def own_prop_def)

text \<open>
  C6 at the input of the repository's test of a failing network: every call rejects
  with \<open>new Error("Network Error")\<close>. After 4 calls \<open>createPayment\<close> returns a
  failure whose message is the error's own, \<open>Network Error\<close>; the test and the
  claim expect \<open>Internal server error\<close>.
\<close>

theorem createPayment_network_error_message:
  "createPayment test_platform test_client test_payment (0, []) =
     (\<lparr>success = False, paymentUrl = JUndefined, invoiceNumber = JUndefined,
       amount = JUndefined, message = JStr ''Network Error'',
       details = CaughtError (Error ''Error'' ''Network Error'')\<rparr>, (4, []))"
  unfolding createPayment_def createPayment_try_fixture
  by (simp add: fetchWithRetry.simps counting_def counting_delay_def jest_mock_def
      thrown_message_def js_or_def)

text \<open>
  The tests' successful payment, the tests' 400 response and the tests' failing
  network.
\<close>

theorem createPayment_result_witness:
  "(\<exists>response result.
      ok response \<and> json response = Inr result
      \<and> paymentUrl (fst (createPayment test_platform test_client test_payment
                            (0, [Inr test_success_response]))) =
          js_or (opt_prop (opt_prop (opt_prop result ''response'') ''payment'') ''url'')
                (opt_prop (opt_prop result ''payment'') ''url''))
   \<and> paymentUrl (fst (createPayment test_platform test_client test_payment
                         (0, [Inr test_success_response])))
        = JStr ''https://example.com/payment''
   \<and> (\<exists>response errorData.
        \<not> ok response \<and> json response = Inr errorData
        \<and> details (fst (createPayment test_platform test_client test_payment
                           (0, [Inr test_error_response]))) = ErrorData errorData)
   \<and> message (fst (createPayment test_platform test_client test_payment
                      (0, [Inr test_error_response]))) = JStr ''Invalid Request''
   \<and> truthy (message (fst (createPayment test_platform test_client test_payment (0, []))))
   \<and> (\<exists>error w'.
        createPayment_try test_platform test_client test_payment (0, []) = (Inl error, w')
        \<and> details (fst (createPayment test_platform test_client test_payment (0, [])))
            = CaughtError error)"
proof -
  obtain res w' where
    r: "createPayment test_platform test_client test_payment (0, []) = (res, w')"
    by (cases "createPayment test_platform test_client test_payment (0, [])")
  have f: "\<not> success res" and d: "details res = CaughtError (Error ''Error'' ''Network Error'')"
    using r unfolding createPayment_def createPayment_try_fixture
    by (auto simp add: fetchWithRetry.simps counting_def counting_delay_def jest_mock_def)
  from createPayment_result [OF r] f d
  have 1: "truthy (message res)
         \<and> (\<exists>error w'.
              createPayment_try test_platform test_client test_payment (0, []) = (Inl error, w')
              \<and> details res = CaughtError error)"
    by auto
  obtain res2 w2 where
    r2: "createPayment test_platform test_client test_payment
           (0, [Inr test_success_response]) = (res2, w2)"
    by (cases "createPayment test_platform test_client test_payment
                 (0, [Inr test_success_response])")
  have s: "success res2" and u: "paymentUrl res2 = JStr ''https://example.com/payment''"
    using r2 unfolding createPayment_def createPayment_try_fixture
    by (auto simp add: fetchWithRetry.simps counting_def jest_mock_def ok_def
        test_success_response_def handleResponse_def bindE_def envelope_field_def own_prop_def)
  from createPayment_result [OF r2] s
  have 2: "\<exists>response result.
      ok response \<and> json response = Inr result
      \<and> paymentUrl res2 =
          js_or (opt_prop (opt_prop (opt_prop result ''response'') ''payment'') ''url'')
                (opt_prop (opt_prop result ''payment'') ''url'')"
    by blast
  obtain res3 w3 where
    r3: "createPayment test_platform test_client test_payment
           (0, [Inr test_error_response]) = (res3, w3)"
    by (cases "createPayment test_platform test_client test_payment
                 (0, [Inr test_error_response])")
  have f3: "\<not> success res3" and m3: "message res3 = JStr ''Invalid Request''"
    and d3: "details res3 =
      ErrorData (JObj [(''error'', JObj [(''message'', JStr ''Invalid Request'')])])"
    using r3 unfolding createPayment_def createPayment_try_fixture
    by (auto simp add: fetchWithRetry.simps counting_def jest_mock_def ok_def
        test_error_response_def handleResponse_def bindE_def own_prop_def js_or_def)
  from createPayment_result [OF r3] f3 d3
  have 3: "\<exists>response errorData.
        \<not> ok response \<and> json response = Inr errorData \<and> details res3 = ErrorData errorData"
    by auto
  from 1 2 3 u m3 show ?thesis by (simp add: r r2 r3)
qed

end
